theory Spec2Isabelle
  imports Main
begin

section \<open>The test descriptor \<open>test_regress/t/t_covergroup_coverpoints_unsup.py\<close>\<close>

text \<open>
  The descriptor is a straight-line Python script over the object \<open>test\<close> that the
  driver injects:
  \<^verbatim>\<open>
  test.scenarios('simulator')

  if test.vlt_all:
      test.lint(fails=True, expect_filename=test.golden_filename)
  else:
      test.compile(nc_flags2=["-coverage", "functional"])
      test.execute()

  test.passes()
  \<close>
  The driver that implements \<open>test\<close> is not part of the sources at hand, so the
  object is a parameter of the model: a record of its methods and attributes over an
  arbitrary driver state \<open>'st\<close> and an arbitrary exception type \<open>'e\<close>.
\<close>

subsection \<open>Statements that may raise\<close>

text \<open>
  A Python call either returns or raises. In both cases the mutations made to the
  \<open>test\<close> object so far persist, so both results carry the state.
\<close>

datatype ('e, 'st) outcome = Returned 'st | Raised 'e 'st

fun state_of :: "('e, 'st) outcome \<Rightarrow> 'st" where
  "state_of (Returned s) = s"
| "state_of (Raised e s) = s"

fun returned :: "('e, 'st) outcome \<Rightarrow> bool" where
  "returned (Returned s) = True"
| "returned (Raised e s) = False"

text \<open>Sequencing of two statements: an exception skips everything after it.\<close>

fun and_then :: "('e, 'st) outcome \<Rightarrow> ('st \<Rightarrow> ('e, 'st) outcome) \<Rightarrow> ('e, 'st) outcome" where
  "and_then (Returned s) f = f s"
| "and_then (Raised e s) f = Raised e s"

subsection \<open>The injected \<open>test\<close> object\<close>

text \<open>Keyword arguments of a call, in the order they are written.\<close>

type_synonym kwargs = "(string \<times> string list) list"

record ('e, 'st) harness =
  scenarios :: "string list \<Rightarrow> 'st \<Rightarrow> ('e, 'st) outcome"
  vlt_all :: "'st \<Rightarrow> bool"
  golden_filename :: "'st \<Rightarrow> string"
  lint :: "bool \<Rightarrow> string \<Rightarrow> 'st \<Rightarrow> ('e, 'st) outcome"
  compile :: "kwargs \<Rightarrow> 'st \<Rightarrow> ('e, 'st) outcome"
  execute :: "'st \<Rightarrow> ('e, 'st) outcome"
  passes :: "'st \<Rightarrow> ('e, 'st) outcome"

subsection \<open>The script\<close>

text \<open>Lines 14 to 18: the two-way branch on \<open>test.vlt_all\<close>.\<close>

definition mode_branch :: "('e, 'st) harness \<Rightarrow> 'st \<Rightarrow> ('e, 'st) outcome" where
  "mode_branch test s =
     (if vlt_all test s
      then lint test True (golden_filename test s) s
      else and_then (compile test [(''nc_flags2'', [''-coverage'', ''functional''])] s)
                    (execute test))"

text \<open>Lines 12 to 20: the whole module body.\<close>

definition t_covergroup_coverpoints_unsup ::
  "('e, 'st) harness \<Rightarrow> 'st \<Rightarrow> ('e, 'st) outcome" where
  "t_covergroup_coverpoints_unsup test s =
     and_then (and_then (scenarios test [''simulator''] s) (mode_branch test)) (passes test)"

subsection \<open>Observing the calls the script makes\<close>

text \<open>
  A request is one method call on \<open>test\<close> with its arguments. To observe which calls
  the script makes, and in which order, an arbitrary driver is wrapped so that every
  method first appends its own call to a log and then behaves as before. The log is
  kept when the wrapped method raises.
\<close>

datatype request =
    Scenarios "string list"
  | Lint bool string
  | Compile kwargs
  | Execute
  | Passes

fun with_log :: "request list \<Rightarrow> ('e, 'st) outcome \<Rightarrow> ('e, 'st \<times> request list) outcome" where
  "with_log l (Returned s) = Returned (s, l)"
| "with_log l (Raised e s) = Raised e (s, l)"

definition logged :: "('e, 'st) harness \<Rightarrow> ('e, 'st \<times> request list) harness" where
  "logged h =
     \<lparr> scenarios = (\<lambda>tags (s, l). with_log (l @ [Scenarios tags]) (scenarios h tags s)),
       vlt_all = (\<lambda>(s, l). vlt_all h s),
       golden_filename = (\<lambda>(s, l). golden_filename h s),
       lint = (\<lambda>fails expect_filename (s, l).
                 with_log (l @ [Lint fails expect_filename]) (lint h fails expect_filename s)),
       compile = (\<lambda>kw (s, l). with_log (l @ [Compile kw]) (compile h kw s)),
       execute = (\<lambda>(s, l). with_log (l @ [Execute]) (execute h s)),
       passes = (\<lambda>(s, l). with_log (l @ [Passes]) (passes h s)) \<rparr>"

text \<open>The calls made by the branch alone, and by the whole script, from state \<open>s\<close>.\<close>

definition branch_requests :: "('e, 'st) harness \<Rightarrow> 'st \<Rightarrow> request list" where
  "branch_requests h s = snd (state_of (mode_branch (logged h) (s, [])))"

definition requests :: "('e, 'st) harness \<Rightarrow> 'st \<Rightarrow> request list" where
  "requests h s = snd (state_of (t_covergroup_coverpoints_unsup (logged h) (s, [])))"

text \<open>Which branch a sequence of calls belongs to.\<close>

fun is_lint :: "request \<Rightarrow> bool" where
  "is_lint (Lint fails expect_filename) = True"
| "is_lint r = False"

fun is_compile :: "request \<Rightarrow> bool" where
  "is_compile (Compile kw) = True"
| "is_compile r = False"

fun is_execute :: "request \<Rightarrow> bool" where
  "is_execute Execute = True"
| "is_execute r = False"

definition lint_branch_ran :: "request list \<Rightarrow> bool" where
  "lint_branch_ran rs = list_ex is_lint rs"

definition compile_branch_ran :: "request list \<Rightarrow> bool" where
  "compile_branch_ran rs = list_ex (\<lambda>r. is_compile r \<or> is_execute r) rs"

text \<open>The keyword arguments of a compile request; no other request carries flags.\<close>

fun kwargs_of :: "request \<Rightarrow> kwargs" where
  "kwargs_of (Compile kw) = kw"
| "kwargs_of r = []"

subsection \<open>The driver, as far as the specification describes it\<close>

text \<open>Modelled from the spec: the error kinds that the driver (absent from the sources)
  reports; section 7 of the specification names ConfigurationError, CompileError,
  RuntimeError and TestFailure.
\<close>

datatype error = ConfigurationError | CompileError | RuntimeError | TestFailure

text \<open>Modelled from the spec: everything outside the descriptor that a run of the absent
  driver depends on. The specification leaves to the driver which scenario tags and
  which flag maps it rejects, and to the tools whether the lint pass, the compilation
  and the execution succeed; these are inputs of a run, next to the mode flag, the lint
  pass's textual output and the content of the golden reference named by an identifier.
\<close>

record env =
  mode_flag :: bool
  rejects_scenario :: "string \<Rightarrow> bool"
  rejects_flag_map :: "kwargs \<Rightarrow> bool"
  lint_exits_ok :: bool
  lint_output :: string
  golden_reference :: "string \<Rightarrow> string"
  compile_succeeds :: bool
  execute_exits_ok :: bool

text \<open>Modelled from the spec: the state of the absent \<open>test\<close> object: the injected mode
  flag, the derived golden filename, whether the case was marked as expected to fail,
  whether a step has reported a failure, and whether the case is recorded as passed.
\<close>

record test_state =
  flag :: bool
  golden :: string
  expected_to_fail :: bool
  failed :: bool
  recorded_pass :: bool

text \<open>Modelled from the spec: how the absent driver reports an error. "Any failure in any
  step is an alternate terminal (Fail), short-circuiting remaining steps": the failure
  is noted and the step raises.
\<close>

definition fail_with :: "error \<Rightarrow> test_state \<Rightarrow> (error, test_state) outcome" where
  "fail_with e s = Raised e (s\<lparr>failed := True\<rparr>)"

text \<open>Modelled from the spec: \<open>declare_scenarios(tags)\<close> of the absent driver. "Fails only
  if the harness rejects an unrecognized tag (error kind: ConfigurationError)."
\<close>

definition spec_scenarios ::
  "env \<Rightarrow> string list \<Rightarrow> test_state \<Rightarrow> (error, test_state) outcome" where
  "spec_scenarios e tags s =
     (if list_ex (rejects_scenario e) tags then fail_with ConfigurationError s else Returned s)"

text \<open>Modelled from the spec: \<open>request_lint(expect_failure, golden_reference)\<close> of the absent
  driver. "The harness is expected to fail the step if the observed outcome's
  success/failure polarity does not match \<open>expect_failure\<close>, and to compare textual
  output against the golden reference, reporting a mismatch as a TestFailure."
  The observed outcome is a failure when the lint pass does not exit successfully.
\<close>

definition spec_lint ::
  "env \<Rightarrow> bool \<Rightarrow> string \<Rightarrow> test_state \<Rightarrow> (error, test_state) outcome" where
  "spec_lint e fails expect_filename s =
     (if (\<not> lint_exits_ok e) \<noteq> fails then fail_with TestFailure s
      else if lint_output e \<noteq> golden_reference e expect_filename then fail_with TestFailure s
      else Returned s)"

text \<open>Modelled from the spec: \<open>request_compile(backend_flags)\<close> of the absent driver.
  "Failure to compile is surfaced by the harness as CompileError"; a malformed flag
  map is a ConfigurationError.
\<close>

definition spec_compile ::
  "env \<Rightarrow> kwargs \<Rightarrow> test_state \<Rightarrow> (error, test_state) outcome" where
  "spec_compile e kw s =
     (if rejects_flag_map e kw then fail_with ConfigurationError s
      else if compile_succeeds e then Returned s
      else fail_with CompileError s)"

text \<open>Modelled from the spec: \<open>request_execute()\<close> of the absent driver. "RuntimeError
  surfaced by harness on non-zero exit, unless the case has already been marked as
  expected-to-fail."
\<close>

definition spec_execute :: "env \<Rightarrow> test_state \<Rightarrow> (error, test_state) outcome" where
  "spec_execute e s =
     (if execute_exits_ok e then Returned s
      else if expected_to_fail s then Returned s
      else fail_with RuntimeError s)"

text \<open>Modelled from the spec: \<open>mark_pass()\<close> of the absent driver. "Signals that, provided
  no prior step reported failure, this test case should be recorded as passed."
\<close>

definition spec_passes :: "test_state \<Rightarrow> (error, test_state) outcome" where
  "spec_passes s = Returned (s\<lparr>recorded_pass := \<not> failed s\<rparr>)"

text \<open>Modelled from the spec: the absent driver's object \<open>test\<close>, with the fields and
  operations that section 6 of the specification lists.
\<close>

definition spec_harness :: "env \<Rightarrow> (error, test_state) harness" where
  "spec_harness e =
     \<lparr> scenarios = spec_scenarios e,
       vlt_all = flag,
       golden_filename = golden,
       lint = spec_lint e,
       compile = spec_compile e,
       execute = spec_execute e,
       passes = spec_passes \<rparr>"

text \<open>The name of the descriptor's own file.\<close>

definition py_filename :: string where
  "py_filename = ''t_covergroup_coverpoints_unsup.py''"

text \<open>Modelled from the spec: the absent driver's derivation of \<open>golden_filename\<close>: "the
  test file's own name with its reference-output suffix", that is, with \<open>.out\<close> in
  place of \<open>.py\<close>.
\<close>

definition derived_golden_filename :: "string \<Rightarrow> string" where
  "derived_golden_filename name =
     (if drop (length name - 3) name = ''.py'' then take (length name - 3) name else name)
     @ ''.out''"

text \<open>Modelled from the spec: the \<open>test\<close> object as the absent driver hands it to the
  descriptor: the mode flag injected, the golden filename derived, nothing failed and
  nothing recorded yet.
\<close>

definition initial :: "env \<Rightarrow> test_state" where
  "initial e =
     \<lparr> flag = mode_flag e,
       golden = derived_golden_filename py_filename,
       expected_to_fail = False,
       failed = False,
       recorded_pass = False \<rparr>"

text \<open>Modelled from the spec: the verdict of a run under the absent driver: the case
  passes when it is recorded as passed at the end of the script; "absence of this call
  (e.g., due to an earlier abort) means the case is not recorded as passed".
\<close>

definition verdict :: "env \<Rightarrow> bool" where
  "verdict e = recorded_pass (state_of (t_covergroup_coverpoints_unsup (spec_harness e) (initial e)))"

text \<open>Modelled from the spec: the absent driver's routing of extra flags. The compile
  operation takes keywords of the form \<open><backend>_flags2\<close> and passes "extra flags only to
  the backend(s) named in the map; other backends receive no extra flags".
\<close>

definition extra_flags :: "kwargs \<Rightarrow> string \<Rightarrow> string list" where
  "extra_flags kw backend =
     (case map_of kw (backend @ ''_flags2'') of None \<Rightarrow> [] | Some flags \<Rightarrow> flags)"

text \<open>All extra flags that a sequence of requests hands to one backend.\<close>

definition passed_flags :: "request list \<Rightarrow> string \<Rightarrow> string list" where
  "passed_flags rs backend = concat (map (\<lambda>r. extra_flags (kwargs_of r) backend) rs)"

subsection \<open>Concrete runs\<close>

text \<open>
  Lint-all mode: the lint pass fails, as the descriptor expects, and prints exactly the
  golden reference.
\<close>

definition env_lint_all :: env where
  "env_lint_all =
     \<lparr> mode_flag = True,
       rejects_scenario = (\<lambda>tag. tag \<noteq> ''simulator''),
       rejects_flag_map = (\<lambda>kw. False),
       lint_exits_ok = False,
       lint_output = ''%Error: unsupported'',
       golden_reference = (\<lambda>name. ''%Error: unsupported''),
       compile_succeeds = True,
       execute_exits_ok = True \<rparr>"

text \<open>Normal mode: the compilation and the execution succeed.\<close>

definition env_normal :: env where
  "env_normal = env_lint_all\<lparr>mode_flag := False\<rparr>"

text \<open>Normal mode, with a compilation that fails.\<close>

definition env_compile_fails :: env where
  "env_compile_fails = env_normal\<lparr>compile_succeeds := False\<rparr>"

text \<open>Lint-all mode, with a lint pass that exits successfully.\<close>

definition env_lint_exits_ok :: env where
  "env_lint_exits_ok = env_lint_all\<lparr>lint_exits_ok := True\<rparr>"

text \<open>Normal mode, with a compiled artifact that exits with an error.\<close>

definition env_execute_fails :: env where
  "env_execute_fails = env_normal\<lparr>execute_exits_ok := False\<rparr>"

text \<open>A driver that rejects the scenario tag.\<close>

definition env_scenario_rejected :: env where
  "env_scenario_rejected = env_lint_all\<lparr>rejects_scenario := (\<lambda>tag. True)\<rparr>"

section \<open>Basic facts about the model\<close>

lemma and_then_with_log:
  "and_then (with_log l r) f = (case r of Returned s \<Rightarrow> f (s, l) | Raised e s \<Rightarrow> Raised e (s, l))"
  by (cases r) simp_all

lemma state_of_with_log: "state_of (with_log l r) = (state_of r, l)"
  by (cases r) simp_all

lemma and_then_keeps:
  assumes "\<And>s. P (state_of (f s)) = P s"
  shows "P (state_of (and_then r f)) = P (state_of r)"
  by (cases r) (simp_all add: assms)

lemma logged_simps:
  "scenarios (logged h) tags (s, l) = with_log (l @ [Scenarios tags]) (scenarios h tags s)"
  "vlt_all (logged h) (s, l) = vlt_all h s"
  "golden_filename (logged h) (s, l) = golden_filename h s"
  "lint (logged h) fails name (s, l) = with_log (l @ [Lint fails name]) (lint h fails name s)"
  "compile (logged h) kw (s, l) = with_log (l @ [Compile kw]) (compile h kw s)"
  "execute (logged h) (s, l) = with_log (l @ [Execute]) (execute h s)"
  "passes (logged h) (s, l) = with_log (l @ [Passes]) (passes h s)"
  by (simp_all add: logged_def)

text \<open>The calls of the branch, written out path by path.\<close>

lemma mode_branch_logged:
  "mode_branch (logged h) (s, l) =
     (if vlt_all h s
      then with_log (l @ [Lint True (golden_filename h s)]) (lint h True (golden_filename h s) s)
      else (case compile h [(''nc_flags2'', [''-coverage'', ''functional''])] s of
              Raised e s' \<Rightarrow>
                Raised e (s', l @ [Compile [(''nc_flags2'', [''-coverage'', ''functional''])]])
            | Returned s' \<Rightarrow>
                with_log (l @ [Compile [(''nc_flags2'', [''-coverage'', ''functional''])], Execute])
                         (execute h s')))"
  by (simp add: mode_branch_def logged_simps and_then_with_log split: outcome.splits)

lemma branch_requests_eq:
  "branch_requests h s =
     (if vlt_all h s then [Lint True (golden_filename h s)]
      else if returned (compile h [(''nc_flags2'', [''-coverage'', ''functional''])] s)
      then [Compile [(''nc_flags2'', [''-coverage'', ''functional''])], Execute]
      else [Compile [(''nc_flags2'', [''-coverage'', ''functional''])]])"
  by (simp add: branch_requests_def mode_branch_logged state_of_with_log split: outcome.splits)

text \<open>The calls of the whole script, written out path by path.\<close>

lemma requests_eq:
  "requests h s =
     (case scenarios h [''simulator''] s of
        Raised e s1 \<Rightarrow> [Scenarios [''simulator'']]
      | Returned s1 \<Rightarrow>
          Scenarios [''simulator''] #
          (if vlt_all h s1
           then Lint True (golden_filename h s1) #
                (if returned (lint h True (golden_filename h s1) s1) then [Passes] else [])
           else Compile [(''nc_flags2'', [''-coverage'', ''functional''])] #
                (case compile h [(''nc_flags2'', [''-coverage'', ''functional''])] s1 of
                   Raised e s2 \<Rightarrow> []
                 | Returned s2 \<Rightarrow>
                     Execute # (if returned (execute h s2) then [Passes] else []))))"
  by (simp add: requests_def t_covergroup_coverpoints_unsup_def logged_simps
        and_then_with_log mode_branch_logged state_of_with_log split: outcome.splits)

text \<open>
  Logging only observes: the wrapped driver ends the same way, in the same state, as
  the driver itself.
\<close>

lemma logged_mode_branch_same:
  "mode_branch (logged h) (s, l) = with_log (l @ branch_requests h s) (mode_branch h s)"
proof (cases "vlt_all h s")
  case True
  then show ?thesis
    by (simp add: mode_branch_logged branch_requests_eq mode_branch_def [of h s])
next
  case False
  then show ?thesis
    by (cases "compile h [(''nc_flags2'', [''-coverage'', ''functional''])] s")
       (simp_all add: mode_branch_logged branch_requests_eq mode_branch_def [of h s])
qed

lemma logged_script_same:
  "t_covergroup_coverpoints_unsup (logged h) (s, []) =
     with_log (requests h s) (t_covergroup_coverpoints_unsup h s)"
proof (cases "scenarios h [''simulator''] s")
  case (Raised e s1)
  then show ?thesis
    by (simp add: requests_eq t_covergroup_coverpoints_unsup_def logged_simps)
next
  case (Returned s1)
  show ?thesis
  proof (cases "mode_branch h s1")
    case (Raised e s2)
    with Returned show ?thesis
      apply (simp add: requests_eq t_covergroup_coverpoints_unsup_def logged_simps(1)
          logged_mode_branch_same branch_requests_eq)
      apply (auto simp: mode_branch_def split: outcome.splits if_splits)
      done
  next
    case R2: (Returned s2)
    with Returned show ?thesis
      apply (simp add: requests_eq t_covergroup_coverpoints_unsup_def logged_simps
          logged_mode_branch_same branch_requests_eq and_then_with_log)
      apply (auto simp: mode_branch_def split: outcome.splits if_splits)
      done
  qed
qed

text \<open>The mark-pass call is made exactly when every call before it returned.\<close>

lemma passes_requested_iff:
  "(Passes \<in> set (requests h s)) =
     (returned (scenarios h [''simulator''] s) \<and>
      (let s1 = state_of (scenarios h [''simulator''] s) in
       if vlt_all h s1 then returned (lint h True (golden_filename h s1) s1)
       else returned (compile h [(''nc_flags2'', [''-coverage'', ''functional''])] s1) \<and>
            returned (execute h (state_of (compile h [(''nc_flags2'', [''-coverage'', ''functional''])] s1)))))"
proof (cases "scenarios h [''simulator''] s")
  case (Raised e s1)
  then show ?thesis by (simp add: requests_eq)
next
  case (Returned s1)
  then show ?thesis
    by (cases "compile h [(''nc_flags2'', [''-coverage'', ''functional''])] s1") (simp_all add: requests_eq)
qed

text \<open>When the mark-pass call is not made, the script ends where the aborting call left it.\<close>

lemma aborted_before_passes:
  assumes "Passes \<notin> set (requests h s)"
  shows "t_covergroup_coverpoints_unsup h s =
           and_then (scenarios h [''simulator''] s) (mode_branch h)
         \<and> \<not> returned (t_covergroup_coverpoints_unsup h s)"
proof (cases "scenarios h [''simulator''] s")
  case (Raised e s1)
  then show ?thesis by (simp add: t_covergroup_coverpoints_unsup_def)
next
  case (Returned s1)
  show ?thesis
  proof (cases "vlt_all h s1")
    case True
    with assms Returned show ?thesis
      by (cases "lint h True (golden_filename h s1) s1")
         (simp_all add: requests_eq t_covergroup_coverpoints_unsup_def mode_branch_def)
  next
    case False
    show ?thesis
    proof (cases "compile h [(''nc_flags2'', [''-coverage'', ''functional''])] s1")
      case (Raised e s2)
      with Returned False show ?thesis
        by (simp add: t_covergroup_coverpoints_unsup_def mode_branch_def)
    next
      case C: (Returned s2)
      with assms Returned False show ?thesis
        by (cases "execute h s2")
           (simp_all add: requests_eq t_covergroup_coverpoints_unsup_def mode_branch_def)
    qed
  qed
qed

text \<open>The keyword \<open>nc_flags2\<close> names the backend \<open>nc\<close> and no other.\<close>

lemma nc_keyword: "(b @ ''_flags2'' = ''nc_flags2'') = (b = ''nc'')"
proof -
  have "(b @ ''_flags2'' = ''nc'' @ ''_flags2'') = (b = ''nc'')"
    by (rule append_same_eq)
  then show ?thesis by simp
qed

subsection \<open>Runs under the driver of the specification\<close>

lemma spec_harness_simps:
  "scenarios (spec_harness e) = spec_scenarios e"
  "vlt_all (spec_harness e) = flag"
  "golden_filename (spec_harness e) = golden"
  "lint (spec_harness e) = spec_lint e"
  "compile (spec_harness e) = spec_compile e"
  "execute (spec_harness e) = spec_execute e"
  "passes (spec_harness e) = spec_passes"
  by (simp_all add: spec_harness_def)

lemma derived_golden_filename_py:
  "derived_golden_filename py_filename = ''t_covergroup_coverpoints_unsup.out''"
  by (simp add: derived_golden_filename_def py_filename_def)

lemma verdict_eq:
  "verdict e =
     (\<not> rejects_scenario e ''simulator'' \<and>
      (if mode_flag e
       then \<not> lint_exits_ok e \<and>
            lint_output e = golden_reference e (derived_golden_filename py_filename)
       else \<not> rejects_flag_map e [(''nc_flags2'', [''-coverage'', ''functional''])] \<and>
            compile_succeeds e \<and> execute_exits_ok e))"
  by (simp add: verdict_def t_covergroup_coverpoints_unsup_def mode_branch_def
      spec_harness_simps spec_scenarios_def spec_lint_def spec_compile_def spec_execute_def
      spec_passes_def fail_with_def initial_def)

lemma spec_requests_eq:
  "requests (spec_harness e) (initial e) =
     Scenarios [''simulator''] #
     (if rejects_scenario e ''simulator'' then []
      else if mode_flag e
      then Lint True (derived_golden_filename py_filename) #
           (if \<not> lint_exits_ok e \<and>
               lint_output e = golden_reference e (derived_golden_filename py_filename)
            then [Passes] else [])
      else Compile [(''nc_flags2'', [''-coverage'', ''functional''])] #
           (if rejects_flag_map e [(''nc_flags2'', [''-coverage'', ''functional''])]
               \<or> \<not> compile_succeeds e then []
            else Execute # (if execute_exits_ok e then [Passes] else [])))"
  by (simp add: requests_eq spec_harness_simps spec_scenarios_def spec_lint_def
      spec_compile_def spec_execute_def fail_with_def initial_def)

text \<open>Under this driver a case is recorded as passed exactly when the mark-pass call is made.\<close>

lemma verdict_iff_passes_requested:
  "verdict e = (Passes \<in> set (requests (spec_harness e) (initial e)))"
  by (simp add: verdict_eq spec_requests_eq)

lemmas env_defs =
  env_lint_all_def env_normal_def env_compile_fails_def env_lint_exits_ok_def
  env_execute_fails_def env_scenario_rejected_def

text \<open>The concrete runs, step by step.\<close>

lemma lint_all_steps:
  "scenarios (spec_harness env_lint_all) [''simulator''] (initial env_lint_all)
     = Returned (initial env_lint_all)"
  "vlt_all (spec_harness env_lint_all) (initial env_lint_all)"
  "golden_filename (spec_harness env_lint_all) (initial env_lint_all)
     = ''t_covergroup_coverpoints_unsup.out''"
  "lint (spec_harness env_lint_all) True ''t_covergroup_coverpoints_unsup.out''
     (initial env_lint_all) = Returned (initial env_lint_all)"
  by (simp_all add: spec_harness_simps spec_scenarios_def spec_lint_def initial_def
      derived_golden_filename_py env_defs)

lemma normal_steps:
  "scenarios (spec_harness env_normal) [''simulator''] (initial env_normal)
     = Returned (initial env_normal)"
  "\<not> vlt_all (spec_harness env_normal) (initial env_normal)"
  "compile (spec_harness env_normal) [(''nc_flags2'', [''-coverage'', ''functional''])]
     (initial env_normal) = Returned (initial env_normal)"
  "execute (spec_harness env_normal) (initial env_normal) = Returned (initial env_normal)"
  by (simp_all add: spec_harness_simps spec_scenarios_def spec_compile_def spec_execute_def
      initial_def env_defs)

text \<open>A run in which the driver rejects the scenario tag: the script stops before the branch.\<close>

lemma scenario_rejected_requests:
  "requests (spec_harness env_scenario_rejected) (initial env_scenario_rejected)
     = [Scenarios [''simulator'']]"
  "\<not> verdict env_scenario_rejected"
  by (simp_all add: spec_requests_eq verdict_eq env_defs)

section \<open>The claims\<close>

subsection \<open>C1: exactly one branch\<close>

text \<open>
  C1. For every value of the mode flag \<open>vlt_all\<close>, the descriptor executes exactly one
  of the lint branch and the compile+execute branch: never both, never neither.

  The branch statement (lines 14 to 18), started in any state of any driver, makes a
  lint call or a compile call but not both, and it is the flag that selects: the lint
  call is made exactly when the flag is true. For the whole script the two branches
  never both run; and once the scenario registration before the branch has returned,
  so that the flag is read at all, exactly one of them runs.
\<close>

theorem mode_branch_exactly_one:
  "lint_branch_ran (branch_requests h s) = (\<not> compile_branch_ran (branch_requests h s))
   \<and> lint_branch_ran (branch_requests h s) = vlt_all h s
   \<and> \<not> (lint_branch_ran (requests h t) \<and> compile_branch_ran (requests h t))
   \<and> (returned (scenarios h [''simulator''] t) \<longrightarrow>
        lint_branch_ran (requests h t) = (\<not> compile_branch_ran (requests h t)))"
  by (simp add: branch_requests_eq requests_eq lint_branch_ran_def compile_branch_ran_def
      split: outcome.splits)

theorem mode_branch_exactly_one_witness:
  "returned (scenarios (spec_harness env_normal) [''simulator''] (initial env_normal))
   \<and> compile_branch_ran (requests (spec_harness env_normal) (initial env_normal))
   \<and> \<not> lint_branch_ran (requests (spec_harness env_normal) (initial env_normal))"
proof -
  have a: "returned (scenarios (spec_harness env_normal) [''simulator''] (initial env_normal))"
    by (simp add: normal_steps)
  have b: "compile_branch_ran (requests (spec_harness env_normal) (initial env_normal))"
    by (simp add: requests_eq compile_branch_ran_def normal_steps)
  from mode_branch_exactly_one
    [of "spec_harness env_normal" "initial env_normal" "initial env_normal"] a b
  show ?thesis by simp
qed

subsection \<open>C2: the lint-all path\<close>

text \<open>
  C2. When the mode flag is true, the descriptor makes exactly one lint request, with
  \<open>fails=True\<close> and the golden filename as \<open>expect_filename\<close>, and makes no compile
  request and no execute request.

  The flag is the one the script reads, in the state \<open>s1\<close> that the scenario
  registration returns.
\<close>

theorem lint_all_requests:
  assumes "scenarios h [''simulator''] s = Returned s1" and "vlt_all h s1"
  shows "filter is_lint (requests h s) = [Lint True (golden_filename h s1)]
         \<and> filter is_compile (requests h s) = []
         \<and> filter is_execute (requests h s) = []"
  using assms by (simp add: requests_eq)

theorem lint_all_requests_witness:
  "scenarios (spec_harness env_lint_all) [''simulator''] (initial env_lint_all)
     = Returned (initial env_lint_all)
   \<and> vlt_all (spec_harness env_lint_all) (initial env_lint_all)
   \<and> filter is_lint (requests (spec_harness env_lint_all) (initial env_lint_all))
       = [Lint True ''t_covergroup_coverpoints_unsup.out'']
   \<and> filter is_compile (requests (spec_harness env_lint_all) (initial env_lint_all)) = []
   \<and> filter is_execute (requests (spec_harness env_lint_all) (initial env_lint_all)) = []"
  using lint_all_requests [OF lint_all_steps(1) lint_all_steps(2)]
  by (simp add: lint_all_steps)

subsection \<open>C3: the normal path\<close>




subsection \<open>C4: extra flags for the backend \<open>nc\<close> only\<close>

text \<open>
  C4. When the compile branch executes, the extra flags \<open>["-coverage", "functional"]\<close>
  are passed only to the backend \<open>nc\<close>; every other backend receives no extra flags
  from this descriptor.

  The one compile request carries the single keyword \<open>nc_flags2\<close>. Read by the
  keyword convention \<open><backend>_flags2\<close>, the requests of the run hand exactly these
  two flags to \<open>nc\<close> and nothing to any other backend.
\<close>

theorem extra_flags_only_nc:
  assumes "scenarios h [''simulator''] s = Returned s1" and "\<not> vlt_all h s1"
  shows "map kwargs_of (filter is_compile (requests h s)) = [[(''nc_flags2'', [''-coverage'', ''functional''])]]
         \<and> passed_flags (requests h s) ''nc'' = [''-coverage'', ''functional'']
         \<and> (\<forall>b. b \<noteq> ''nc'' \<longrightarrow> passed_flags (requests h s) b = [])"
  using assms
  by (auto simp add: requests_eq passed_flags_def extra_flags_def nc_keyword
      split: outcome.splits)

theorem extra_flags_only_nc_witness:
  "scenarios (spec_harness env_normal) [''simulator''] (initial env_normal)
     = Returned (initial env_normal)
   \<and> \<not> vlt_all (spec_harness env_normal) (initial env_normal)
   \<and> passed_flags (requests (spec_harness env_normal) (initial env_normal)) ''nc''
       = [''-coverage'', ''functional'']
   \<and> passed_flags (requests (spec_harness env_normal) (initial env_normal)) ''vlt'' = []"
  using extra_flags_only_nc [OF normal_steps(1) normal_steps(2)]
  by (simp add: normal_steps)

subsection \<open>C5: the mark-pass call\<close>

text \<open>
  C5. The mark-pass call \<open>test.passes()\<close> is reached if and only if no earlier call
  reported an error: if the scenarios, lint, compile or execute step aborts the
  sequence, the mark-pass call is never made and the case is not recorded as passed.

  A call reports an error to the script by raising. For every driver, the mark-pass
  call is made exactly when the scenario registration returned and, on the path the
  flag selects, the lint call returned, or the compile call and the execute call both
  returned. And whatever the driver reads as its record of a pass (\<open>recorded\<close>): if
  only the mark-pass call changes it, a run that never makes this call leaves it as it
  was, and the run ends by raising.
\<close>

theorem passes_iff_no_prior_error:
  "(Passes \<in> set (requests h s)) =
     (returned (scenarios h [''simulator''] s) \<and>
      (let s1 = state_of (scenarios h [''simulator''] s) in
       if vlt_all h s1 then returned (lint h True (golden_filename h s1) s1)
       else returned (compile h [(''nc_flags2'', [''-coverage'', ''functional''])] s1) \<and>
            returned (execute h (state_of (compile h [(''nc_flags2'', [''-coverage'', ''functional''])] s1)))))
   \<and> ((\<forall>tags s. recorded (state_of (scenarios h tags s)) = recorded s)
        \<and> (\<forall>fails name s. recorded (state_of (lint h fails name s)) = recorded s)
        \<and> (\<forall>kw s. recorded (state_of (compile h kw s)) = recorded s)
        \<and> (\<forall>s. recorded (state_of (execute h s)) = recorded s)
        \<and> Passes \<notin> set (requests h s)
       \<longrightarrow> recorded (state_of (t_covergroup_coverpoints_unsup h s)) = recorded s
           \<and> \<not> returned (t_covergroup_coverpoints_unsup h s))"
proof (intro conjI impI)
  assume a: "(\<forall>tags s. recorded (state_of (scenarios h tags s)) = recorded s)
        \<and> (\<forall>fails name s. recorded (state_of (lint h fails name s)) = recorded s)
        \<and> (\<forall>kw s. recorded (state_of (compile h kw s)) = recorded s)
        \<and> (\<forall>s. recorded (state_of (execute h s)) = recorded s)
        \<and> Passes \<notin> set (requests h s)"
  then have "Passes \<notin> set (requests h s)"
    by simp
  then have aborted: "t_covergroup_coverpoints_unsup h s =
      and_then (scenarios h [''simulator''] s) (mode_branch h)"
    and raised: "\<not> returned (t_covergroup_coverpoints_unsup h s)"
    using aborted_before_passes [of h s] by blast+
  have branch: "recorded (state_of (mode_branch h s)) = recorded s" for s
    using a by (simp add: mode_branch_def and_then_keeps [where P = recorded])
  have "recorded (state_of (and_then (scenarios h [''simulator''] s) (mode_branch h)))
          = recorded (state_of (scenarios h [''simulator''] s))"
    by (rule and_then_keeps) (rule branch)
  with a aborted show "recorded (state_of (t_covergroup_coverpoints_unsup h s)) = recorded s"
    by simp
  from raised show "\<not> returned (t_covergroup_coverpoints_unsup h s)" .
qed (rule passes_requested_iff)

theorem passes_iff_no_prior_error_witness:
  "Passes \<in> set (requests (spec_harness env_normal) (initial env_normal))
   \<and> Passes \<notin> set (requests (spec_harness env_compile_fails) (initial env_compile_fails))
   \<and> \<not> recorded_pass (state_of (t_covergroup_coverpoints_unsup
           (spec_harness env_compile_fails) (initial env_compile_fails)))
   \<and> \<not> returned (t_covergroup_coverpoints_unsup
           (spec_harness env_compile_fails) (initial env_compile_fails))"
proof -
  have ok: "Passes \<in> set (requests (spec_harness env_normal) (initial env_normal))"
    using passes_iff_no_prior_error
      [of "spec_harness env_normal" "initial env_normal" recorded_pass]
    by (simp add: normal_steps)
  have no: "Passes \<notin> set (requests (spec_harness env_compile_fails) (initial env_compile_fails))"
    using passes_iff_no_prior_error
      [of "spec_harness env_compile_fails" "initial env_compile_fails" recorded_pass]
    by (simp add: spec_harness_simps spec_scenarios_def spec_compile_def fail_with_def
        initial_def env_defs)
  have frame:
    "\<forall>tags s. recorded_pass (state_of (scenarios (spec_harness env_compile_fails) tags s))
        = recorded_pass s"
    "\<forall>fails name s. recorded_pass (state_of (lint (spec_harness env_compile_fails) fails name s))
        = recorded_pass s"
    "\<forall>kw s. recorded_pass (state_of (compile (spec_harness env_compile_fails) kw s))
        = recorded_pass s"
    "\<forall>s. recorded_pass (state_of (execute (spec_harness env_compile_fails) s))
        = recorded_pass s"
    by (simp_all add: spec_harness_simps spec_scenarios_def spec_lint_def spec_compile_def
        spec_execute_def fail_with_def)
  have start: "\<not> recorded_pass (initial env_compile_fails)"
    by (simp add: initial_def)
  from passes_iff_no_prior_error
      [of "spec_harness env_compile_fails" "initial env_compile_fails" recorded_pass]
    frame no start ok
  show ?thesis by simp
qed

subsection \<open>C6: a lint pass that succeeds\<close>

text \<open>
  C6. When the lint branch executes with \<open>expect_failure=True\<close>, any run in which the
  lint step exits successfully is reported as a test failure.

  Under the driver of the specification: the lint step asked to expect a failure
  raises TestFailure when the lint pass exits successfully, whatever it printed; the
  descriptor in lint-all mode then ends with that TestFailure, never makes the
  mark-pass call, and the case is not recorded as passed.
\<close>

theorem lint_success_is_failure:
  assumes "\<not> rejects_scenario e ''simulator''" and "mode_flag e" and "lint_exits_ok e"
  shows "spec_lint e True name s = Raised TestFailure (s\<lparr>failed := True\<rparr>)
         \<and> t_covergroup_coverpoints_unsup (spec_harness e) (initial e)
             = Raised TestFailure ((initial e)\<lparr>failed := True\<rparr>)
         \<and> \<not> verdict e
         \<and> Passes \<notin> set (requests (spec_harness e) (initial e))"
proof -
  have step: "spec_lint e True name s = Raised TestFailure (s\<lparr>failed := True\<rparr>)" for name s
    using assms by (simp add: spec_lint_def fail_with_def)
  have run: "t_covergroup_coverpoints_unsup (spec_harness e) (initial e)
               = Raised TestFailure ((initial e)\<lparr>failed := True\<rparr>)"
    using assms
    by (simp add: t_covergroup_coverpoints_unsup_def mode_branch_def spec_harness_simps
        spec_scenarios_def step initial_def)
  have rec: "\<not> verdict e"
    using assms by (simp add: verdict_eq)
  have req: "Passes \<notin> set (requests (spec_harness e) (initial e))"
    using assms by (simp add: spec_requests_eq)
  from step run rec req show ?thesis by simp
qed

theorem lint_success_is_failure_witness:
  "\<not> rejects_scenario env_lint_exits_ok ''simulator''
   \<and> mode_flag env_lint_exits_ok \<and> lint_exits_ok env_lint_exits_ok
   \<and> lint_output env_lint_exits_ok
       = golden_reference env_lint_exits_ok ''t_covergroup_coverpoints_unsup.out''
   \<and> t_covergroup_coverpoints_unsup (spec_harness env_lint_exits_ok) (initial env_lint_exits_ok)
       = Raised TestFailure
           \<lparr> flag = True, golden = ''t_covergroup_coverpoints_unsup.out'',
             expected_to_fail = False, failed = True, recorded_pass = False \<rparr>
   \<and> \<not> verdict env_lint_exits_ok"
proof -
  have a: "\<not> rejects_scenario env_lint_exits_ok ''simulator''"
    and b: "mode_flag env_lint_exits_ok" and c: "lint_exits_ok env_lint_exits_ok"
    and d: "lint_output env_lint_exits_ok
       = golden_reference env_lint_exits_ok ''t_covergroup_coverpoints_unsup.out''"
    by (simp_all add: env_defs)
  from lint_success_is_failure [OF a b c] a b c d show ?thesis
    by (simp add: initial_def derived_golden_filename_py)
qed

subsection \<open>C8: the mode flag is only read\<close>

text \<open>
  C8. The descriptor only reads the injected mode flag \<open>vlt_all\<close> and never changes
  it: its value after the descriptor has run equals its value before, for every
  starting value.

  The script has no statement of its own that writes to \<open>test\<close>; every change of
  state comes from a method it calls. So for every driver whose methods leave the flag
  alone, the flag read in the state in which the script ends, whether by returning or
  by raising, is the flag read in the state in which it started.
\<close>

theorem vlt_all_not_mutated:
  assumes "\<And>tags s. vlt_all h (state_of (scenarios h tags s)) = vlt_all h s"
    and "\<And>fails name s. vlt_all h (state_of (lint h fails name s)) = vlt_all h s"
    and "\<And>kw s. vlt_all h (state_of (compile h kw s)) = vlt_all h s"
    and "\<And>s. vlt_all h (state_of (execute h s)) = vlt_all h s"
    and "\<And>s. vlt_all h (state_of (passes h s)) = vlt_all h s"
  shows "vlt_all h (state_of (t_covergroup_coverpoints_unsup h s)) = vlt_all h s"
proof -
  have branch: "vlt_all h (state_of (mode_branch h s)) = vlt_all h s" for s
    by (simp add: mode_branch_def and_then_keeps [where P = "vlt_all h"] assms)
  have "vlt_all h (state_of (t_covergroup_coverpoints_unsup h s))
          = vlt_all h (state_of (and_then (scenarios h [''simulator''] s) (mode_branch h)))"
    unfolding t_covergroup_coverpoints_unsup_def
    by (rule and_then_keeps) (rule assms(5))
  also have "\<dots> = vlt_all h (state_of (scenarios h [''simulator''] s))"
    by (rule and_then_keeps) (rule branch)
  also have "\<dots> = vlt_all h s"
    by (rule assms(1))
  finally show ?thesis .
qed

theorem vlt_all_not_mutated_witness:
  "vlt_all (spec_harness env_compile_fails)
     (state_of (t_covergroup_coverpoints_unsup (spec_harness env_compile_fails)
        (initial env_compile_fails)))
   = vlt_all (spec_harness env_compile_fails) (initial env_compile_fails)
   \<and> state_of (t_covergroup_coverpoints_unsup (spec_harness env_compile_fails)
        (initial env_compile_fails)) \<noteq> initial env_compile_fails"
proof -
  have "vlt_all (spec_harness env_compile_fails)
     (state_of (t_covergroup_coverpoints_unsup (spec_harness env_compile_fails)
        (initial env_compile_fails)))
   = vlt_all (spec_harness env_compile_fails) (initial env_compile_fails)"
    by (rule vlt_all_not_mutated)
       (simp_all add: spec_harness_simps spec_scenarios_def spec_lint_def spec_compile_def
          spec_execute_def spec_passes_def fail_with_def)
  moreover have "state_of (t_covergroup_coverpoints_unsup (spec_harness env_compile_fails)
        (initial env_compile_fails)) \<noteq> initial env_compile_fails"
    by (simp add: t_covergroup_coverpoints_unsup_def mode_branch_def spec_harness_simps
        spec_scenarios_def spec_compile_def fail_with_def initial_def env_defs)
  ultimately show ?thesis by simp
qed

subsection \<open>C9: the golden reference of the lint request\<close>

text \<open>
  C9. On the lint branch, the golden reference passed to the lint request is the
  golden filename that the driver derives, which is this test file's own name with
  its reference-output suffix: \<open>t_covergroup_coverpoints_unsup.out\<close>.

  For every driver the lint request carries the value of \<open>test.golden_filename\<close> read
  at the branch. Under the driver of the specification that value is derived from
  the file name \<open>t_covergroup_coverpoints_unsup.py\<close> and is
  \<open>t_covergroup_coverpoints_unsup.out\<close>, and this is the name in the lint request.
\<close>

theorem golden_reference_is_own_name:
  "(scenarios h [''simulator''] s = Returned s1 \<and> vlt_all h s1 \<longrightarrow>
      filter is_lint (requests h s) = [Lint True (golden_filename h s1)])
   \<and> golden_filename (spec_harness e) (initial e) = derived_golden_filename py_filename
   \<and> derived_golden_filename py_filename = ''t_covergroup_coverpoints_unsup.out''
   \<and> (mode_flag e \<and> \<not> rejects_scenario e ''simulator'' \<longrightarrow>
        filter is_lint (requests (spec_harness e) (initial e))
          = [Lint True ''t_covergroup_coverpoints_unsup.out''])"
proof -
  have "scenarios h [''simulator''] s = Returned s1 \<and> vlt_all h s1 \<longrightarrow>
      filter is_lint (requests h s) = [Lint True (golden_filename h s1)]"
    by (simp add: requests_eq)
  moreover have "golden_filename (spec_harness e) (initial e) = derived_golden_filename py_filename"
    by (simp add: spec_harness_simps initial_def)
  moreover have "mode_flag e \<and> \<not> rejects_scenario e ''simulator'' \<longrightarrow>
        filter is_lint (requests (spec_harness e) (initial e))
          = [Lint True ''t_covergroup_coverpoints_unsup.out'']"
    by (simp add: spec_requests_eq derived_golden_filename_py)
  ultimately show ?thesis
    by (simp add: derived_golden_filename_py)
qed

theorem golden_reference_is_own_name_witness:
  "mode_flag env_lint_exits_ok \<and> \<not> rejects_scenario env_lint_exits_ok ''simulator''
   \<and> filter is_lint (requests (spec_harness env_lint_exits_ok) (initial env_lint_exits_ok))
       = [Lint True ''t_covergroup_coverpoints_unsup.out'']"
proof -
  have a: "mode_flag env_lint_exits_ok"
    and b: "\<not> rejects_scenario env_lint_exits_ok ''simulator''"
    by (simp_all add: env_defs)
  from golden_reference_is_own_name
      [of "spec_harness env_lint_exits_ok" "initial env_lint_exits_ok"
          "initial env_lint_exits_ok" env_lint_exits_ok] a b
  show ?thesis by simp
qed

subsection \<open>C10: scenario registration comes first\<close>

text \<open>
  C10. For every value of the mode flag, \<open>scenarios('simulator')\<close> is the first call
  the descriptor makes, before the branch is evaluated: no lint, compile, execute or
  mark-pass request precedes it. The complete call sequence of the lint branch is
  \<open>scenarios('simulator')\<close>, \<open>lint(fails=True, expect_filename=golden_filename)\<close>,
  \<open>passes()\<close>, so the lint-only path also ends with the mark-pass call.

  The second half fails as stated when the lint call raises: in a run with the flag
  true whose lint call raises, the complete call sequence of the lint branch is the
  scenario registration and the lint request, and the path does not end with the
  mark-pass call.
\<close>

theorem lint_path_abort_counterexample:
  "scenarios (spec_harness env_lint_exits_ok) [''simulator''] (initial env_lint_exits_ok)
     = Returned (initial env_lint_exits_ok)
   \<and> vlt_all (spec_harness env_lint_exits_ok) (initial env_lint_exits_ok)
   \<and> requests (spec_harness env_lint_exits_ok) (initial env_lint_exits_ok)
       = [Scenarios [''simulator''], Lint True ''t_covergroup_coverpoints_unsup.out'']
   \<and> Passes \<notin> set (requests (spec_harness env_lint_exits_ok) (initial env_lint_exits_ok))"
proof -
  have steps:
    "scenarios (spec_harness env_lint_exits_ok) [''simulator''] (initial env_lint_exits_ok)
       = Returned (initial env_lint_exits_ok)"
    "vlt_all (spec_harness env_lint_exits_ok) (initial env_lint_exits_ok)"
    by (simp_all add: spec_harness_simps spec_scenarios_def initial_def env_defs)
  have calls:
    "requests (spec_harness env_lint_exits_ok) (initial env_lint_exits_ok)
       = [Scenarios [''simulator''], Lint True ''t_covergroup_coverpoints_unsup.out'']"
    by (simp add: spec_requests_eq derived_golden_filename_py env_defs)
  from steps show ?thesis
    by (simp add: calls)
qed

text \<open>
  C10, amended. For every value of the mode flag, \<open>scenarios('simulator')\<close> is the
  first call the descriptor makes, before the branch is evaluated: no lint, compile,
  execute or mark-pass request precedes it. With the flag true at the branch, the
  complete call sequence is \<open>scenarios('simulator')\<close>,
  \<open>lint(fails=True, expect_filename=golden_filename)\<close> and, exactly when the lint call
  returns without an error, \<open>passes()\<close>: the lint-only path ends with the mark-pass
  call when the lint call returns, and with the lint request when it raises.
\<close>

theorem scenarios_first:
  "requests h s = Scenarios [''simulator''] # tl (requests h s)
   \<and> (scenarios h [''simulator''] s = Returned s1 \<and> vlt_all h s1 \<longrightarrow>
        requests h s =
          [Scenarios [''simulator''], Lint True (golden_filename h s1)] @
          (if returned (lint h True (golden_filename h s1) s1) then [Passes] else []))"
  by (simp add: requests_eq split: outcome.splits)

theorem scenarios_first_witness:
  "scenarios (spec_harness env_lint_all) [''simulator''] (initial env_lint_all)
     = Returned (initial env_lint_all)
   \<and> vlt_all (spec_harness env_lint_all) (initial env_lint_all)
   \<and> returned (lint (spec_harness env_lint_all) True
        (golden_filename (spec_harness env_lint_all) (initial env_lint_all))
        (initial env_lint_all))
   \<and> requests (spec_harness env_lint_all) (initial env_lint_all) =
        [Scenarios [''simulator''], Lint True ''t_covergroup_coverpoints_unsup.out'', Passes]"
  using scenarios_first
    [of "spec_harness env_lint_all" "initial env_lint_all" "initial env_lint_all"]
  by (simp add: lint_all_steps)

end
